theory Spec2Isabelle
  imports Complex_Main
begin

section \<open>Floating-point values of the arrays\<close>

text \<open>
  The strategy in \<^verbatim>\<open>evosax/strategies/cma_es.py\<close> computes on JAX arrays of IEEE
  floating-point numbers. A division by zero there does not raise: it yields an
  infinity or a NaN that flows on through the later formulas. HOL's \<open>x / 0 = 0\<close> on
  \<open>real\<close> would hide that, so array elements are modelled by the type \<open>fval\<close>:
  a real number, one of the two infinities, or NaN. The operations \<open>+\<close>, \<open>-\<close>, \<open>*\<close>,
  \<open>/\<close> on \<open>fval\<close> give the exact result on finite operands and follow the IEEE rules
  for the special values; there is a single zero (a finite non-zero value divided by
  zero gives the infinity of the numerator's sign). Rounding is a separate step, see
  the section on rounding below.
\<close>

datatype fval = Fin real | PInf | NInf | NaN

instantiation fval :: "{plus, uminus, minus, times, inverse, ord}"
begin

fun plus_fval :: "fval \<Rightarrow> fval \<Rightarrow> fval" where
  "plus_fval (Fin a) (Fin b) = Fin (a + b)"
| "plus_fval NaN y = NaN"
| "plus_fval x NaN = NaN"
| "plus_fval PInf NInf = NaN"
| "plus_fval NInf PInf = NaN"
| "plus_fval PInf y = PInf"
| "plus_fval x PInf = PInf"
| "plus_fval NInf y = NInf"
| "plus_fval x NInf = NInf"

fun uminus_fval :: "fval \<Rightarrow> fval" where
  "uminus_fval (Fin a) = Fin (- a)"
| "uminus_fval PInf = NInf"
| "uminus_fval NInf = PInf"
| "uminus_fval NaN = NaN"

definition minus_fval :: "fval \<Rightarrow> fval \<Rightarrow> fval" where
  "minus_fval x y = x + (- y)"

fun times_fval :: "fval \<Rightarrow> fval \<Rightarrow> fval" where
  "times_fval (Fin a) (Fin b) = Fin (a * b)"
| "times_fval NaN y = NaN"
| "times_fval x NaN = NaN"
| "times_fval PInf (Fin b) = (if 0 < b then PInf else if b < 0 then NInf else NaN)"
| "times_fval NInf (Fin b) = (if 0 < b then NInf else if b < 0 then PInf else NaN)"
| "times_fval (Fin a) PInf = (if 0 < a then PInf else if a < 0 then NInf else NaN)"
| "times_fval (Fin a) NInf = (if 0 < a then NInf else if a < 0 then PInf else NaN)"
| "times_fval PInf PInf = PInf"
| "times_fval PInf NInf = NInf"
| "times_fval NInf PInf = NInf"
| "times_fval NInf NInf = PInf"

fun divide_fval :: "fval \<Rightarrow> fval \<Rightarrow> fval" where
  "divide_fval (Fin a) (Fin b) =
     (if b \<noteq> 0 then Fin (a / b)
      else if 0 < a then PInf else if a < 0 then NInf else NaN)"
| "divide_fval NaN y = NaN"
| "divide_fval x NaN = NaN"
| "divide_fval (Fin a) PInf = Fin 0"
| "divide_fval (Fin a) NInf = Fin 0"
| "divide_fval PInf (Fin b) = (if 0 \<le> b then PInf else NInf)"
| "divide_fval NInf (Fin b) = (if 0 \<le> b then NInf else PInf)"
| "divide_fval PInf y = NaN"
| "divide_fval NInf y = NaN"

definition inverse_fval :: "fval \<Rightarrow> fval" where
  "inverse_fval x = (Fin 1) div x"

fun less_fval :: "fval \<Rightarrow> fval \<Rightarrow> bool" where
  "less_fval (Fin a) (Fin b) = (a < b)"
| "less_fval NaN y = False"
| "less_fval x NaN = False"
| "less_fval x NInf = False"
| "less_fval PInf y = False"
| "less_fval NInf y = True"
| "less_fval x PInf = True"

fun less_eq_fval :: "fval \<Rightarrow> fval \<Rightarrow> bool" where
  "less_eq_fval (Fin a) (Fin b) = (a \<le> b)"
| "less_eq_fval NaN y = False"
| "less_eq_fval x NaN = False"
| "less_eq_fval NInf y = True"
| "less_eq_fval x PInf = True"
| "less_eq_fval x NInf = False"
| "less_eq_fval PInf y = False"

instance ..

end

text \<open>\<^verbatim>\<open>a == b\<close> on array elements: NaN is equal to nothing, not even to itself.\<close>

fun feq :: "fval \<Rightarrow> fval \<Rightarrow> bool" where
  "feq NaN y = False"
| "feq x NaN = False"
| "feq x y = (x = y)"

text \<open>\<^verbatim>\<open>jnp.sqrt\<close>, \<^verbatim>\<open>jnp.log\<close>, \<^verbatim>\<open>jnp.exp\<close>, \<^verbatim>\<open>jnp.abs\<close>.\<close>

fun fsqrt :: "fval \<Rightarrow> fval" where
  "fsqrt (Fin a) = (if 0 \<le> a then Fin (sqrt a) else NaN)"
| "fsqrt PInf = PInf"
| "fsqrt NInf = NaN"
| "fsqrt NaN = NaN"

fun flog :: "fval \<Rightarrow> fval" where
  "flog (Fin a) = (if 0 < a then Fin (ln a) else if a = 0 then NInf else NaN)"
| "flog PInf = PInf"
| "flog NInf = NaN"
| "flog NaN = NaN"

fun fexp :: "fval \<Rightarrow> fval" where
  "fexp (Fin a) = Fin (exp a)"
| "fexp PInf = PInf"
| "fexp NInf = Fin 0"
| "fexp NaN = NaN"

fun fabs :: "fval \<Rightarrow> fval" where
  "fabs (Fin a) = Fin \<bar>a\<bar>"
| "fabs PInf = PInf"
| "fabs NInf = PInf"
| "fabs NaN = NaN"

text \<open>\<^verbatim>\<open>jnp.minimum\<close> and \<^verbatim>\<open>jnp.maximum\<close> propagate NaN.\<close>

definition fminimum :: "fval \<Rightarrow> fval \<Rightarrow> fval" where
  "fminimum x y = (if x = NaN \<or> y = NaN then NaN else if y < x then y else x)"

definition fmaximum :: "fval \<Rightarrow> fval \<Rightarrow> fval" where
  "fmaximum x y = (if x = NaN \<or> y = NaN then NaN else if x < y then y else x)"

text \<open>
  Python's builtin \<^verbatim>\<open>min(a, b, c)\<close> keeps the first argument and replaces it only
  by a later one that compares strictly less, so a NaN after the first position is
  skipped and a NaN in the first position is kept.
\<close>

definition py_min2 :: "fval \<Rightarrow> fval \<Rightarrow> fval" where
  "py_min2 x y = (if y < x then y else x)"

definition py_min3 :: "fval \<Rightarrow> fval \<Rightarrow> fval \<Rightarrow> fval" where
  "py_min3 x y z = py_min2 (py_min2 x y) z"

text \<open>\<^verbatim>\<open>x ** k\<close> for an integer exponent, as repeated multiplication.\<close>

fun fpow_nat :: "fval \<Rightarrow> nat \<Rightarrow> fval" where
  "fpow_nat x 0 = Fin 1"
| "fpow_nat x (Suc k) = x * fpow_nat x k"

definition fpow :: "fval \<Rightarrow> int \<Rightarrow> fval" where
  "fpow x k = (if 0 \<le> k then fpow_nat x (nat k) else Fin 1 / fpow_nat x (nat (- k)))"

definition fsquare :: "fval \<Rightarrow> fval" where
  "fsquare x = x * x"

section \<open>Rounding\<close>

text \<open>
  A floating-point operation returns the exact result rounded to the format of the
  arrays. The rounding is the parameter \<open>rnd\<close>, a function from the exact real result
  to the value stored (a representable number, or an infinity on overflow); \<open>fl rnd\<close>
  applies it to a finite value and leaves infinities and NaN as they are. The functions
  below are the rounded operations. \<open>rnd = Fin\<close> is exact arithmetic.

  The rounding is written into \<^verbatim>\<open>init_strategy\<close> and into the fourth and fifth test of
  \<^verbatim>\<open>check_termination\<close>, whose outcome rounding decides (a guard of \<open>1e-8\<close> next to 1,
  a sum compared for equality with one of its operands). The remaining arithmetic
  (the eigendecomposition, \<^verbatim>\<open>ask\<close>, \<^verbatim>\<open>tell\<close>, the threshold comparisons of the other
  tests) is written without rounding.
\<close>

definition fl :: "(real \<Rightarrow> fval) \<Rightarrow> fval \<Rightarrow> fval" where
  "fl rnd x = (case x of Fin a \<Rightarrow> rnd a | PInf \<Rightarrow> PInf | NInf \<Rightarrow> NInf | NaN \<Rightarrow> NaN)"

definition radd :: "(real \<Rightarrow> fval) \<Rightarrow> fval \<Rightarrow> fval \<Rightarrow> fval" where
  "radd rnd x y = fl rnd (x + y)"

definition rsub :: "(real \<Rightarrow> fval) \<Rightarrow> fval \<Rightarrow> fval \<Rightarrow> fval" where
  "rsub rnd x y = fl rnd (x - y)"

definition rmul :: "(real \<Rightarrow> fval) \<Rightarrow> fval \<Rightarrow> fval \<Rightarrow> fval" where
  "rmul rnd x y = fl rnd (x * y)"

definition rdiv :: "(real \<Rightarrow> fval) \<Rightarrow> fval \<Rightarrow> fval \<Rightarrow> fval" where
  "rdiv rnd x y = fl rnd (x / y)"

definition rsqrt :: "(real \<Rightarrow> fval) \<Rightarrow> fval \<Rightarrow> fval" where
  "rsqrt rnd x = fl rnd (fsqrt x)"

definition rlog :: "(real \<Rightarrow> fval) \<Rightarrow> fval \<Rightarrow> fval" where
  "rlog rnd x = fl rnd (flog x)"

text \<open>\<^verbatim>\<open>jnp.sum\<close> of a one-dimensional array, adding from the left.\<close>

definition rsum :: "(real \<Rightarrow> fval) \<Rightarrow> fval list \<Rightarrow> fval" where
  "rsum rnd xs = foldl (radd rnd) (Fin 0) xs"

text \<open>
  Binary rounding to nearest, ties to even, with \<open>prec\<close> significant bits:
  \<open>round_binary 24\<close> is the rounding of IEEE binary32 (the default dtype of JAX)
  wherever the result is a normal number; overflow and subnormal numbers are left out.
\<close>

definition round_half_even :: "real \<Rightarrow> int" where
  "round_half_even y =
     (if y - of_int \<lfloor>y\<rfloor> < 1 / 2 then \<lfloor>y\<rfloor>
      else if 1 / 2 < y - of_int \<lfloor>y\<rfloor> then \<lfloor>y\<rfloor> + 1
      else if even \<lfloor>y\<rfloor> then \<lfloor>y\<rfloor> else \<lfloor>y\<rfloor> + 1)"

definition round_binary :: "nat \<Rightarrow> real \<Rightarrow> fval" where
  "round_binary prec x =
     (if x = 0 then Fin 0
      else Fin (2 powr (of_int \<lfloor>log 2 \<bar>x\<bar>\<rfloor> - (of_nat prec - 1))
                 * of_int (round_half_even
                     (x / 2 powr (of_int \<lfloor>log 2 \<bar>x\<bar>\<rfloor> - (of_nat prec - 1))))))"

section \<open>Vectors and matrices\<close>

text \<open>
  A one-dimensional array is a list, a two-dimensional array the list of its rows.
  The operations below are total on lists; JAX raises on operands whose shapes do
  not fit, and the functions of the strategy are modelled for operands whose shapes
  fit (vectors of length \<open>n_dim\<close>, square matrices of that size).
\<close>

type_synonym vec = "fval list"
type_synonym mat = "fval list list"

text \<open>\<^verbatim>\<open>jnp.sum\<close> of a one-dimensional array.\<close>

definition fsum :: "vec \<Rightarrow> fval" where
  "fsum xs = foldl (+) (Fin 0) xs"

text \<open>Python slices \<^verbatim>\<open>xs[:k]\<close> and \<^verbatim>\<open>xs[k:]\<close>; a negative \<open>k\<close> counts from the end.\<close>

definition py_take :: "int \<Rightarrow> 'a list \<Rightarrow> 'a list" where
  "py_take k xs = (if 0 \<le> k then take (nat k) xs else take (nat (int (length xs) + k)) xs)"

definition py_drop :: "int \<Rightarrow> 'a list \<Rightarrow> 'a list" where
  "py_drop k xs = (if 0 \<le> k then drop (nat k) xs else drop (nat (int (length xs) + k)) xs)"

definition vadd :: "vec \<Rightarrow> vec \<Rightarrow> vec" where
  "vadd xs ys = map2 (+) xs ys"

definition vsub :: "vec \<Rightarrow> vec \<Rightarrow> vec" where
  "vsub xs ys = map2 (-) xs ys"

definition vscale :: "fval \<Rightarrow> vec \<Rightarrow> vec" where
  "vscale c xs = map (\<lambda>x. c * x) xs"

definition dot :: "vec \<Rightarrow> vec \<Rightarrow> fval" where
  "dot xs ys = fsum (map2 (*) xs ys)"

definition norm2 :: "vec \<Rightarrow> fval" where
  "norm2 xs = fsqrt (fsum (map fsquare xs))"

definition mat_T :: "mat \<Rightarrow> mat" where
  "mat_T A = transpose A"

definition mat_vec :: "mat \<Rightarrow> vec \<Rightarrow> vec" where
  "mat_vec A x = map (\<lambda>row. dot row x) A"

definition mat_mul :: "mat \<Rightarrow> mat \<Rightarrow> mat" where
  "mat_mul A B = map (\<lambda>row. map (\<lambda>col. dot row col) (mat_T B)) A"

definition mat_add :: "mat \<Rightarrow> mat \<Rightarrow> mat" where
  "mat_add A B = map2 vadd A B"

definition mat_scale :: "fval \<Rightarrow> mat \<Rightarrow> mat" where
  "mat_scale c A = map (vscale c) A"

definition outer :: "vec \<Rightarrow> vec \<Rightarrow> mat" where
  "outer xs ys = map (\<lambda>x. map (\<lambda>y. x * y) ys) xs"

text \<open>\<^verbatim>\<open>jnp.diag\<close> of a vector (the diagonal matrix) and of a matrix (its diagonal).\<close>

definition diag_mat :: "vec \<Rightarrow> mat" where
  "diag_mat d =
     map (\<lambda>i. map (\<lambda>j. if i = j then d ! i else Fin 0) [0..<length d]) [0..<length d]"

definition diagonal :: "mat \<Rightarrow> vec" where
  "diagonal A = concat (map (\<lambda>(i, row). take 1 (drop i row)) (enumerate 0 A))"

text \<open>\<^verbatim>\<open>jnp.eye\<close> and \<^verbatim>\<open>jnp.zeros\<close>.\<close>

definition eye :: "nat \<Rightarrow> mat" where
  "eye n = map (\<lambda>i. map (\<lambda>j. if i = j then Fin 1 else Fin 0) [0..<n]) [0..<n]"

definition zeros :: "nat \<Rightarrow> vec" where
  "zeros n = replicate n (Fin 0)"

section \<open>Errors\<close>

text \<open>The exceptions the module can raise.\<close>

datatype py_error = NameError | ValueError | ZeroDivisionError | IndexError

section \<open>Parameters and state\<close>

text \<open>The dictionaries \<^verbatim>\<open>params\<close> and \<^verbatim>\<open>memory\<close>, with the keys of the source.\<close>

record params =
  pop_size :: int
  mu :: int
  mu_eff :: fval
  c_1 :: fval
  c_mu :: fval
  c_m :: fval
  c_sigma :: fval
  d_sigma :: fval
  c_c :: fval
  chi_n :: fval
  weights :: vec
  tol_x :: fval
  tol_x_up :: fval
  tol_fun :: fval
  tol_condition_C :: fval
  min_generations :: int

record memory =
  p_sigma :: vec
  p_c :: vec
  sigma :: fval
  mean :: vec
  C :: mat
  D :: "vec option"
  B :: "mat option"
  generation :: int

section \<open>Initialisation\<close>

text \<open>
  The local variables of \<^verbatim>\<open>init_strategy\<close>, each as a function of the arguments it
  depends on. \<open>n\<close> is \<^verbatim>\<open>n_dim = mean_init.shape[0]\<close>, \<open>lam\<close> is \<^verbatim>\<open>population_size\<close> and
  \<open>m\<close> is \<^verbatim>\<open>mu\<close>. Every array operation rounds its result with \<open>rnd\<close>; a Python number
  that enters an array operation is rounded to the format first (\<open>rnd c\<close>; small
  integers are written \<open>Fin k\<close>, they are representable). \<^verbatim>\<open>jnp.log\<close> is taken as
  the rounded logarithm.
\<close>

definition weights_prime :: "(real \<Rightarrow> fval) \<Rightarrow> int \<Rightarrow> vec" where
  "weights_prime rnd lam =
     map (\<lambda>i. rsub rnd (rlog rnd (rnd ((of_int lam + 1) / 2))) (rlog rnd (rnd (of_nat i + 1))))
       [0..<nat lam]"

definition init_mu_eff :: "(real \<Rightarrow> fval) \<Rightarrow> int \<Rightarrow> int \<Rightarrow> fval" where
  "init_mu_eff rnd lam m =
     rdiv rnd
       (rmul rnd (rsum rnd (py_take m (weights_prime rnd lam)))
                 (rsum rnd (py_take m (weights_prime rnd lam))))
       (rsum rnd (map (\<lambda>w. rmul rnd w w) (py_take m (weights_prime rnd lam))))"

definition init_mu_eff_minus :: "(real \<Rightarrow> fval) \<Rightarrow> int \<Rightarrow> int \<Rightarrow> fval" where
  "init_mu_eff_minus rnd lam m =
     rdiv rnd
       (rmul rnd (rsum rnd (py_drop m (weights_prime rnd lam)))
                 (rsum rnd (py_drop m (weights_prime rnd lam))))
       (rsum rnd (map (\<lambda>w. rmul rnd w w) (py_drop m (weights_prime rnd lam))))"

definition alpha_cov :: fval where
  "alpha_cov = Fin 2"

definition init_c_1 :: "(real \<Rightarrow> fval) \<Rightarrow> nat \<Rightarrow> int \<Rightarrow> int \<Rightarrow> fval" where
  "init_c_1 rnd n lam m =
     rdiv rnd alpha_cov (radd rnd (rnd ((of_nat n + 1.3) ^ 2)) (init_mu_eff rnd lam m))"

text \<open>
  \<^verbatim>\<open>c_mu\<close>: the first argument of \<^verbatim>\<open>jnp.minimum\<close> is \<^verbatim>\<open>1 - c_1 - 1e-8\<close>, two rounded
  subtractions.
\<close>

definition init_c_mu :: "(real \<Rightarrow> fval) \<Rightarrow> nat \<Rightarrow> int \<Rightarrow> int \<Rightarrow> fval" where
  "init_c_mu rnd n lam m =
     fminimum
       (rsub rnd (rsub rnd (Fin 1) (init_c_1 rnd n lam m)) (rnd (1 / 10 ^ 8)))
       (rdiv rnd
          (rmul rnd alpha_cov
             (radd rnd (rsub rnd (init_mu_eff rnd lam m) (Fin 2))
                       (rdiv rnd (Fin 1) (init_mu_eff rnd lam m))))
          (radd rnd (rnd ((of_nat n + 2) ^ 2))
                    (rdiv rnd (rmul rnd alpha_cov (init_mu_eff rnd lam m)) (Fin 2))))"

definition min_alpha :: "(real \<Rightarrow> fval) \<Rightarrow> nat \<Rightarrow> int \<Rightarrow> int \<Rightarrow> fval" where
  "min_alpha rnd n lam m =
     py_min3
       (radd rnd (Fin 1) (rdiv rnd (init_c_1 rnd n lam m) (init_c_mu rnd n lam m)))
       (radd rnd (Fin 1)
          (rdiv rnd (rmul rnd (Fin 2) (init_mu_eff_minus rnd lam m))
                    (radd rnd (init_mu_eff rnd lam m) (Fin 2))))
       (rdiv rnd
          (rsub rnd (rsub rnd (Fin 1) (init_c_1 rnd n lam m)) (init_c_mu rnd n lam m))
          (rmul rnd (rnd (of_nat n)) (init_c_mu rnd n lam m)))"

definition positive_sum :: "(real \<Rightarrow> fval) \<Rightarrow> int \<Rightarrow> fval" where
  "positive_sum rnd lam = rsum rnd (filter (\<lambda>w. Fin 0 < w) (weights_prime rnd lam))"

definition negative_sum :: "(real \<Rightarrow> fval) \<Rightarrow> int \<Rightarrow> fval" where
  "negative_sum rnd lam =
     rsum rnd (map fabs (filter (\<lambda>w. w < Fin 0) (weights_prime rnd lam)))"

definition init_weights :: "(real \<Rightarrow> fval) \<Rightarrow> nat \<Rightarrow> int \<Rightarrow> int \<Rightarrow> vec" where
  "init_weights rnd n lam m =
     map (\<lambda>w. if Fin 0 \<le> w then rmul rnd (rdiv rnd (Fin 1) (positive_sum rnd lam)) w
              else rmul rnd (rdiv rnd (min_alpha rnd n lam m) (negative_sum rnd lam)) w)
       (weights_prime rnd lam)"

definition init_c_sigma :: "(real \<Rightarrow> fval) \<Rightarrow> nat \<Rightarrow> int \<Rightarrow> int \<Rightarrow> fval" where
  "init_c_sigma rnd n lam m =
     rdiv rnd (radd rnd (init_mu_eff rnd lam m) (Fin 2))
       (radd rnd (radd rnd (rnd (of_nat n)) (init_mu_eff rnd lam m)) (Fin 5))"

definition init_d_sigma :: "(real \<Rightarrow> fval) \<Rightarrow> nat \<Rightarrow> int \<Rightarrow> int \<Rightarrow> fval" where
  "init_d_sigma rnd n lam m =
     radd rnd
       (radd rnd (Fin 1)
          (rmul rnd (Fin 2)
             (fmaximum (Fin 0)
                (rsub rnd
                   (rsqrt rnd (rdiv rnd (rsub rnd (init_mu_eff rnd lam m) (Fin 1))
                                        (rnd (of_nat n + 1))))
                   (Fin 1)))))
       (init_c_sigma rnd n lam m)"

definition init_c_c :: "(real \<Rightarrow> fval) \<Rightarrow> nat \<Rightarrow> int \<Rightarrow> int \<Rightarrow> fval" where
  "init_c_c rnd n lam m =
     rdiv rnd
       (radd rnd (Fin 4) (rdiv rnd (init_mu_eff rnd lam m) (rnd (of_nat n))))
       (radd rnd (rnd (of_nat n + 4))
          (rdiv rnd (rmul rnd (Fin 2) (init_mu_eff rnd lam m)) (rnd (of_nat n))))"

text \<open>
  \<^verbatim>\<open>chi_n\<close> divides Python floats by \<^verbatim>\<open>4.0 * n_dim\<close> and \<^verbatim>\<open>21.0 * n_dim ** 2\<close>: for
  \<^verbatim>\<open>n_dim = 0\<close> that raises ZeroDivisionError (Python floats, unlike the arrays, raise).
\<close>

definition init_chi_n :: "(real \<Rightarrow> fval) \<Rightarrow> nat \<Rightarrow> py_error + fval" where
  "init_chi_n rnd n =
     (if n = 0 then Inl ZeroDivisionError
      else Inr (rmul rnd (rsqrt rnd (rnd (of_nat n)))
                  (rnd (1 - 1 / (4 * of_nat n) + 1 / (21 * (of_nat n) ^ 2)))))"

text \<open>
  \<^verbatim>\<open>tol_x\<close> is \<^verbatim>\<open>1e-12 * sigma\<close>, a product of the two Python numbers.
\<close>

definition init_strategy ::
  "(real \<Rightarrow> fval) \<Rightarrow> vec \<Rightarrow> fval \<Rightarrow> int \<Rightarrow> int \<Rightarrow> py_error + (params \<times> memory)" where
  "init_strategy rnd mean_init sig population_size m =
     (let n_dim = length mean_init in
      case init_chi_n rnd n_dim of
        Inl e \<Rightarrow> Inl e
      | Inr chi \<Rightarrow>
          Inr (\<lparr> pop_size = population_size,
                 mu = m,
                 mu_eff = init_mu_eff rnd population_size m,
                 c_1 = init_c_1 rnd n_dim population_size m,
                 c_mu = init_c_mu rnd n_dim population_size m,
                 c_m = Fin 1,
                 c_sigma = init_c_sigma rnd n_dim population_size m,
                 d_sigma = init_d_sigma rnd n_dim population_size m,
                 c_c = init_c_c rnd n_dim population_size m,
                 chi_n = chi,
                 weights = init_weights rnd n_dim population_size m,
                 tol_x = Fin (1 / 10 ^ 12) * sig,
                 tol_x_up = Fin (10 ^ 4),
                 tol_fun = Fin (1 / 10 ^ 12),
                 tol_condition_C = Fin (10 ^ 14),
                 min_generations = 10 \<rparr>,
               \<lparr> p_sigma = zeros n_dim,
                 p_c = zeros n_dim,
                 sigma = sig,
                 mean = mean_init,
                 C = eye n_dim,
                 D = None,
                 B = None,
                 generation = 0 \<rparr>))"

text \<open>
  \<^verbatim>\<open>check_initialization()\<close> takes no argument and reads \<^verbatim>\<open>population_size\<close>, a name
  bound neither in the function nor in the module: its first assertion raises
  NameError on every call. \<^verbatim>\<open>init_strategy\<close> does not call it.
\<close>

definition check_initialization :: "py_error + unit" where
  "check_initialization = Inl NameError"

section \<open>Eigendecomposition\<close>

text \<open>
  \<^verbatim>\<open>jnp.linalg.eigh\<close> is library code: it is the parameter \<open>eigh\<close>, a function from a
  matrix to its eigenvalues (in ascending order) and the matrix whose columns are the
  eigenvectors. The source's \<^verbatim>\<open>eigen_decomposition(C, B, D)\<close> returns \<^verbatim>\<open>C, B, D\<close>.
\<close>

type_synonym eigh_fun = "mat \<Rightarrow> vec \<times> mat"

definition clamp_sqrt :: "vec \<Rightarrow> vec" where
  "clamp_sqrt D2 = map (\<lambda>e. fsqrt (if e < Fin 0 then Fin (1 / 10 ^ 20) else e)) D2"

definition eigen_decomposition ::
  "eigh_fun \<Rightarrow> mat \<Rightarrow> mat option \<Rightarrow> vec option \<Rightarrow> mat \<times> mat \<times> vec" where
  "eigen_decomposition eigh C0 B0 D0 =
     (case (B0, D0) of
        (Some b, Some d) \<Rightarrow> (C0, b, d)
      | _ \<Rightarrow>
          (let Cs = map (map (\<lambda>v. v / Fin 2)) (mat_add C0 (mat_T C0));
               (D2, b) = eigh Cs;
               d = clamp_sqrt D2;
               C1 = mat_mul (mat_mul b (diag_mat (map fsquare d))) (mat_T b)
           in (C1, b, d)))"

section \<open>Sampling\<close>

text \<open>
  \<^verbatim>\<open>jax.random.normal(rng, shape)\<close> is the parameter \<open>normal\<close>. The source writes the
  three results of the decomposition back into \<^verbatim>\<open>memory\<close> and returns the candidates
  with it.
\<close>

definition ask_cma_strategy ::
  "eigh_fun \<Rightarrow> ('r \<Rightarrow> nat \<times> int \<Rightarrow> mat) \<Rightarrow> 'r \<Rightarrow> memory \<Rightarrow> params \<Rightarrow> mat \<times> memory" where
  "ask_cma_strategy eigh normal rng m p =
     (let (C1, b, d) = eigen_decomposition eigh (C m) (B m) (D m);
          z = normal rng (length (mean m), pop_size p);
          y = mat_mul (mat_mul b (diag_mat d)) z;
          y = mat_T y;
          x = map (\<lambda>row. vadd (mean m) (vscale (sigma m) row)) y
      in (x, m\<lparr>C := C1, B := Some b, D := Some d\<rparr>))"

section \<open>Update\<close>

text \<open>
  \<^verbatim>\<open>argsort\<close> on the fitness column: a stable sort in which NaN comes last.
\<close>

fun sort_le :: "fval \<Rightarrow> fval \<Rightarrow> bool" where
  "sort_le x NaN = True"
| "sort_le NaN y = False"
| "sort_le x y = (x \<le> y)"

fun insort_by :: "('a \<Rightarrow> 'a \<Rightarrow> bool) \<Rightarrow> 'a \<Rightarrow> 'a list \<Rightarrow> 'a list" where
  "insort_by le x [] = [x]"
| "insort_by le x (y # ys) = (if le x y then x # y # ys else y # insort_by le x ys)"

definition sort_by :: "('a \<Rightarrow> 'a \<Rightarrow> bool) \<Rightarrow> 'a list \<Rightarrow> 'a list" where
  "sort_by le xs = foldr (insort_by le) xs []"

definition first_col :: "vec \<Rightarrow> fval" where
  "first_col row = (case row of [] \<Rightarrow> NaN | k # _ \<Rightarrow> k)"

definition sort_solutions :: "vec \<Rightarrow> mat \<Rightarrow> mat" where
  "sort_solutions fitness x =
     sort_by (\<lambda>r1 r2. sort_le (first_col r1) (first_col r2)) (map2 (#) fitness x)"

definition update_mean :: "mat \<Rightarrow> int \<Rightarrow> params \<Rightarrow> memory \<Rightarrow> mat \<times> vec \<times> vec" where
  "update_mean sorted_solutions m_arg p m =
     (let x_k = map tl sorted_solutions;
          y_k = map (\<lambda>row. map (\<lambda>v. v / sigma m) (vsub row (mean m))) x_k;
          y_w = map (\<lambda>col. fsum (map2 (*) col (py_take m_arg (weights p))))
                  (mat_T (py_take m_arg y_k));
          mean1 = vadd (mean m) (vscale (c_m p * sigma m) y_w)
      in (y_k, y_w, mean1))"

definition update_p_sigma ::
  "eigh_fun \<Rightarrow> vec \<Rightarrow> params \<Rightarrow> memory \<Rightarrow> vec \<times> mat \<times> mat \<times> mat option \<times> vec option" where
  "update_p_sigma eigh y_w p m =
     (let (C1, b, d) = eigen_decomposition eigh (C m) (B m) (D m);
          C_2 = mat_mul (mat_mul b (diag_mat (map (\<lambda>v. Fin 1 / v) d))) (mat_T b);
          p_sigma_new =
            vadd (vscale (Fin 1 - c_sigma p) (p_sigma m))
              (vscale (fsqrt (c_sigma p * (Fin 2 - c_sigma p) * mu_eff p)) (mat_vec C_2 y_w))
      in (p_sigma_new, C_2, C1, None, None))"

definition update_p_c :: "vec \<Rightarrow> params \<Rightarrow> memory \<Rightarrow> vec \<times> fval \<times> fval" where
  "update_p_c y_w p m =
     (let norm_p_sigma = norm2 (p_sigma m);
          h_sigma_cond_left =
            norm_p_sigma / fsqrt (Fin 1 - fpow (Fin 1 - c_sigma p) (2 * (generation m + 1)));
          h_sigma_cond_right = Fin (1.4 + 2 / (of_nat (length (mean m)) + 1)) * chi_n p;
          h_sigma = Fin 1 * (if h_sigma_cond_left < h_sigma_cond_right then Fin 1 else Fin 0);
          p_c1 =
            vadd (vscale (Fin 1 - c_c p) (p_c m))
              (vscale (h_sigma * fsqrt (c_c p * (Fin 2 - c_c p) * mu_eff p)) y_w)
      in (p_c1, norm_p_sigma, h_sigma))"

definition update_covariance :: "mat \<Rightarrow> fval \<Rightarrow> mat \<Rightarrow> params \<Rightarrow> memory \<Rightarrow> mat" where
  "update_covariance y_k h_sigma C_2 p m =
     (let n = length (mean m);
          norms = map norm2 (mat_T (mat_mul C_2 (mat_T y_k)));
          w_io = map2 (\<lambda>w nr. w * (if Fin 0 \<le> w then Fin 1
                                     else Fin (of_nat n) / (fsquare nr + Fin (1 / 10 ^ 20))))
                   (weights p) norms;
          delta_h_sigma = (Fin 1 - h_sigma) * c_c p * (Fin 2 - c_c p);
          rank_one = outer (p_c m) (p_c m);
          rank_mu = foldl mat_add (replicate n (zeros n))
                      (map2 (\<lambda>w y. mat_scale w (outer y y)) w_io y_k)
      in mat_add
           (mat_add
              (mat_scale (Fin 1 + c_1 p * delta_h_sigma - c_1 p - c_mu p * fsum (weights p))
                 (C m))
              (mat_scale (c_1 p) rank_one))
           (mat_scale (c_mu p) rank_mu))"

definition update_sigma :: "fval \<Rightarrow> params \<Rightarrow> memory \<Rightarrow> fval" where
  "update_sigma norm_p_sigma p m =
     sigma m * fexp ((c_sigma p / d_sigma p) * (norm_p_sigma / chi_n p - Fin 1))"

text \<open>
  \<^verbatim>\<open>tell_cma_strategy\<close> writes each result into \<^verbatim>\<open>memory\<close> before the next update reads
  it; the model passes the updated record on in the same order.
\<close>

definition tell_cma_strategy ::
  "eigh_fun \<Rightarrow> mat \<Rightarrow> vec \<Rightarrow> int \<Rightarrow> params \<Rightarrow> memory \<Rightarrow> memory" where
  "tell_cma_strategy eigh x fitness m_arg p m0 =
     (let m1 = m0\<lparr>generation := generation m0 + 1\<rparr>;
          sorted_solutions = sort_solutions fitness x;
          (y_k, y_w, mean1) = update_mean sorted_solutions m_arg p m1;
          m2 = m1\<lparr>mean := mean1\<rparr>;
          (p_sigma1, C_2, C1, B1, D1) = update_p_sigma eigh y_w p m2;
          m3 = m2\<lparr>p_sigma := p_sigma1, C := C1, B := B1, D := D1\<rparr>;
          (p_c1, norm_p_sigma, h_sigma) = update_p_c y_w p m3;
          m4 = m3\<lparr>p_c := p_c1\<rparr>;
          C2 = update_covariance y_k h_sigma C_2 p m4;
          m5 = m4\<lparr>C := C2\<rparr>;
          sigma1 = update_sigma norm_p_sigma p m5
      in m5\<lparr>sigma := sigma1\<rparr>)"

section \<open>Termination check\<close>

text \<open>
  \<^verbatim>\<open>jnp.max\<close> and \<^verbatim>\<open>jnp.min\<close> of an array: NaN propagates, and an empty array raises
  ValueError.
\<close>

definition fmax_list :: "vec \<Rightarrow> py_error + fval" where
  "fmax_list xs = (case xs of [] \<Rightarrow> Inl ValueError | x # ys \<Rightarrow> Inr (foldl fmaximum x ys))"

definition fmin_list :: "vec \<Rightarrow> py_error + fval" where
  "fmin_list xs = (case xs of [] \<Rightarrow> Inl ValueError | x # ys \<Rightarrow> Inr (foldl fminimum x ys))"

text \<open>
  The six tests of \<^verbatim>\<open>check_termination\<close>, in the order of the source. Each gives the
  truth value of the \<^verbatim>\<open>if\<close> condition, or the exception its evaluation raises.

  First test: \<^verbatim>\<open>and\<close> evaluates the fitness spread only when the generation test holds.
\<close>

definition cond_no_progress :: "vec \<Rightarrow> params \<Rightarrow> memory \<Rightarrow> py_error + bool" where
  "cond_no_progress values p m =
     (if min_generations p < generation m then
        (case fmax_list values of
           Inl e \<Rightarrow> Inl e
         | Inr mx \<Rightarrow>
             (case fmin_list values of
                Inl e \<Rightarrow> Inl e
              | Inr mn \<Rightarrow> Inr (mx - mn < tol_fun p)))
      else Inr False)"

text \<open>
  Second test: \<^verbatim>\<open>jnp.all(memory["sigma"] * dC < params["tol_x"]) and np.all(...)\<close>. When
  the left operand is false, \<^verbatim>\<open>and\<close> stops there. When it is true, the right operand
  is evaluated, and it starts by looking up \<^verbatim>\<open>np\<close>, a name the module never binds (it
  imports \<^verbatim>\<open>jax\<close>, \<^verbatim>\<open>jax.numpy as jnp\<close> and \<^verbatim>\<open>jit\<close>): NameError, before
  \<^verbatim>\<open>memory["p_c"]\<close> is read.
\<close>

definition cond_variance_small :: "params \<Rightarrow> memory \<Rightarrow> py_error + bool" where
  "cond_variance_small p m =
     (if list_all (\<lambda>dc. sigma m * dc < tol_x p) (diagonal (C m))
      then Inl NameError else Inr False)"

definition cond_sigma_exploded :: "vec \<Rightarrow> params \<Rightarrow> memory \<Rightarrow> py_error + bool" where
  "cond_sigma_exploded d p m =
     (case fmax_list d of
        Inl e \<Rightarrow> Inl e
      | Inr mx \<Rightarrow> Inr (tol_x_up p < sigma m * mx))"

text \<open>
  Fourth test: \<^verbatim>\<open>jnp.any(mean == mean + (0.2 * sigma * jnp.sqrt(dC)))\<close>, every
  operation rounded.
\<close>

definition cond_no_effect_coord :: "(real \<Rightarrow> fval) \<Rightarrow> memory \<Rightarrow> py_error + bool" where
  "cond_no_effect_coord rnd m =
     Inr (list_ex (\<lambda>(a, b). feq a b)
            (zip (mean m)
               (map2 (radd rnd) (mean m)
                  (map (\<lambda>dc. rmul rnd (rmul rnd (rnd 0.2) (sigma m)) (rsqrt rnd dc))
                     (diagonal (C m))))))"

text \<open>
  Fifth test: \<^verbatim>\<open>jnp.all(mean == mean + (0.1 * sigma * D[0] * B[:, 0]))\<close>, every operation
  rounded. \<^verbatim>\<open>D[0]\<close> and the column \<^verbatim>\<open>B[:, 0]\<close>: indexing an axis of size 0 raises
  IndexError.
\<close>

definition cond_no_effect_axis ::
  "(real \<Rightarrow> fval) \<Rightarrow> mat \<Rightarrow> vec \<Rightarrow> memory \<Rightarrow> py_error + bool" where
  "cond_no_effect_axis rnd b d m =
     (case d of
        [] \<Rightarrow> Inl IndexError
      | d0 # _ \<Rightarrow>
          if list_ex (\<lambda>row. row = []) b then Inl IndexError
          else Inr (list_all (\<lambda>(a, c). feq a c)
                      (zip (mean m)
                         (map2 (radd rnd) (mean m)
                            (map (\<lambda>row. rmul rnd (rmul rnd (rmul rnd (rnd 0.1) (sigma m)) d0)
                                                 (hd row))
                               b)))))"

definition cond_condition_C :: "vec \<Rightarrow> params \<Rightarrow> py_error + bool" where
  "cond_condition_C d p =
     (case fmax_list d of
        Inl e \<Rightarrow> Inl e
      | Inr mx \<Rightarrow>
          (case fmin_list d of
             Inl e \<Rightarrow> Inl e
           | Inr mn \<Rightarrow> Inr (tol_condition_C p < mx / mn)))"

text \<open>
  One \<^verbatim>\<open>if cond: print(msg); return True\<close> of the source: an exception in the
  condition ends the call, a true condition prints the message and returns \<open>True\<close>,
  a false one goes on to the rest. The result of \<^verbatim>\<open>check_termination\<close> is the returned
  boolean together with the lines printed on standard output.
\<close>

definition stop_if ::
  "py_error + bool \<Rightarrow> string \<Rightarrow> py_error + bool \<times> string list \<Rightarrow> py_error + bool \<times> string list"
  where
  "stop_if c msg rest =
     (case c of
        Inl e \<Rightarrow> Inl e
      | Inr fired \<Rightarrow> if fired then Inr (True, [msg]) else rest)"

text \<open>The printed lines. The fourth and the fifth test print the same text.\<close>

definition msg_no_progress :: string where
  "msg_no_progress = ''TERMINATE ----> Convergence/No progress in objective''"

definition msg_variance_small :: string where
  "msg_variance_small = ''TERMINATE ----> Convergence/Search variance too small''"

definition msg_sigma_exploded :: string where
  "msg_sigma_exploded = ''TERMINATE ----> Stepsize sigma exploded''"

definition msg_no_effect_coord :: string where
  "msg_no_effect_coord = ''TERMINATE ----> No effect when adding std to mean''"

definition msg_no_effect_axis :: string where
  "msg_no_effect_axis = ''TERMINATE ----> No effect when adding std to mean''"

definition msg_condition_C :: string where
  "msg_condition_C = ''TERMINATE ----> C condition number exploded''"

definition check_termination ::
  "(real \<Rightarrow> fval) \<Rightarrow> eigh_fun \<Rightarrow> vec \<Rightarrow> params \<Rightarrow> memory \<Rightarrow> py_error + bool \<times> string list"
  where
  "check_termination rnd eigh values p m =
     (let (C1, b, d) = eigen_decomposition eigh (C m) (B m) (D m) in
      stop_if (cond_no_progress values p m) msg_no_progress
     (stop_if (cond_variance_small p m) msg_variance_small
     (stop_if (cond_sigma_exploded d p m) msg_sigma_exploded
     (stop_if (cond_no_effect_coord rnd m) msg_no_effect_coord
     (stop_if (cond_no_effect_axis rnd b d m) msg_no_effect_axis
     (stop_if (cond_condition_C d p) msg_condition_C
     (Inr (False, []))))))))"

section \<open>Concrete inputs\<close>

text \<open>
  Parameters with the tolerances \<^verbatim>\<open>init_strategy\<close> sets for \<^verbatim>\<open>sigma = 1.0\<close>, a
  two-dimensional state with mean zero, zero evolution paths and an empty cache, and
  an \<open>eigh\<close> that answers with a given decomposition.
\<close>

definition example_params :: params where
  "example_params =
     \<lparr> pop_size = 4, mu = 2, mu_eff = Fin 2, c_1 = Fin (1 / 10), c_mu = Fin (1 / 10),
       c_m = Fin 1, c_sigma = Fin (1 / 2), d_sigma = Fin (3 / 2), c_c = Fin (1 / 2),
       chi_n = Fin 1, weights = [Fin (3 / 4), Fin (1 / 4), Fin (- (1 / 4)), Fin (- (3 / 4))],
       tol_x = Fin (1 / 10 ^ 12), tol_x_up = Fin (10 ^ 4), tol_fun = Fin (1 / 10 ^ 12),
       tol_condition_C = Fin (10 ^ 14), min_generations = 10 \<rparr>"

definition example_memory :: "fval \<Rightarrow> mat \<Rightarrow> memory" where
  "example_memory sig cov =
     \<lparr> p_sigma = [Fin 0, Fin 0], p_c = [Fin 0, Fin 0], sigma = sig,
       mean = [Fin 0, Fin 0], C = cov, D = None, B = None, generation = 0 \<rparr>"

definition eigh_const :: "vec \<Rightarrow> mat \<Rightarrow> eigh_fun" where
  "eigh_const D2 b = (\<lambda>A. (D2, b))"

text \<open>
  A state with a cached decomposition. The covariance matrix has every entry 1; its
  eigenvalues are 0 and 2, with eigenvectors \<open>(1, -1)/sqrt 2\<close> and \<open>(1, 1)/sqrt 2\<close>. The
  cache holds \<open>D = [0, sqrt 2]\<close> and the eigenvectors as columns of \<open>B\<close>, each number
  being the binary32 value nearest to it: \<open>11863283 / 2^24\<close> for \<open>1/sqrt 2\<close> and
  \<open>11863283 / 2^23\<close> for \<open>sqrt 2\<close>.
\<close>

definition cached_state :: memory where
  "cached_state =
     \<lparr> p_sigma = [Fin 0, Fin 0], p_c = [Fin 0, Fin 0], sigma = Fin 1,
       mean = [Fin 0, Fin 0],
       C = [[Fin 1, Fin 1], [Fin 1, Fin 1]],
       D = Some [Fin 0, Fin (11863283 / 2 ^ 23)],
       B = Some [[Fin (11863283 / 2 ^ 24), Fin (11863283 / 2 ^ 24)],
                 [Fin (- (11863283 / 2 ^ 24)), Fin (11863283 / 2 ^ 24)]],
       generation = 0 \<rparr>"

text \<open>
  A state with mean \<open>(1, 1)\<close>, step size \<open>2^-30\<close> (about \<open>9.3e-10\<close>), the identity as
  covariance matrix and an empty cache.
\<close>

definition small_step_state :: memory where
  "small_step_state =
     \<lparr> p_sigma = [Fin 0, Fin 0], p_c = [Fin 0, Fin 0], sigma = Fin (1 / 2 ^ 30),
       mean = [Fin 1, Fin 1],
       C = [[Fin 1, Fin 0], [Fin 0, Fin 1]],
       D = None, B = None, generation = 0 \<rparr>"

section \<open>Evaluation lemmas\<close>

lemma fsum_Nil: "fsum [] = Fin 0"
  by (simp add: fsum_def)


lemma eye2: "eye 2 = [[Fin 1, Fin 0], [Fin 0, Fin 1]]"
  by (simp add: eye_def upt_rec numeral_2_eq_2)



lemma diagonal2: "diagonal [[a, b], [c, d]] = [a, d]"
  by (simp add: diagonal_def enumerate_eq_zip upt_rec)


lemma fmax2: "fmax_list [a, b] = Inr (fmaximum a b)"
  by (simp add: fmax_list_def)

lemma fmin2: "fmin_list [a, b] = Inr (fminimum a b)"
  by (simp add: fmin_list_def)

lemma stop_if_simps:
  "stop_if (Inl e) msg rest = Inl e"
  "stop_if (Inr True) msg rest = Inr (True, [msg])"
  "stop_if (Inr False) msg rest = rest"
  by (simp_all add: stop_if_def)

lemma stop_if_cases:
  "stop_if c msg rest = Inr (b, out) \<longleftrightarrow>
     (c = Inr True \<and> b \<and> out = [msg]) \<or> (c = Inr False \<and> rest = Inr (b, out))"
  by (auto simp add: stop_if_def split: sum.splits)

lemma msgs_distinct:
  "msg_no_progress \<noteq> msg_sigma_exploded" "msg_no_progress \<noteq> msg_no_effect_coord"
  "msg_no_progress \<noteq> msg_condition_C" "msg_sigma_exploded \<noteq> msg_no_effect_coord"
  "msg_sigma_exploded \<noteq> msg_condition_C" "msg_no_effect_coord \<noteq> msg_condition_C"
  "msg_no_progress \<noteq> msg_variance_small" "msg_variance_small \<noteq> msg_sigma_exploded"
  "msg_variance_small \<noteq> msg_no_effect_coord" "msg_variance_small \<noteq> msg_condition_C"
  "msg_no_effect_axis = msg_no_effect_coord"
  by (simp_all add: msg_no_progress_def msg_sigma_exploded_def msg_no_effect_coord_def
      msg_condition_C_def msg_variance_small_def msg_no_effect_axis_def)

lemma list_ex_zip_nth:
  "list_ex (\<lambda>(a, b). P a b) (zip xs ys) \<longleftrightarrow>
     (\<exists>i. i < length xs \<and> i < length ys \<and> P (xs ! i) (ys ! i))"
  by (auto simp add: list_ex_iff set_zip)

text \<open>On a square matrix \<open>diagonal\<close> reads the entries \<open>A[i][i]\<close>.\<close>

lemma diagonal_nth_aux:
  "\<forall>row \<in> set A. k + length A \<le> length row \<Longrightarrow>
     concat (map (\<lambda>(i, row). take 1 (drop i row)) (enumerate k A))
       = map (\<lambda>i. A ! i ! (k + i)) [0..<length A]"
proof (induction A arbitrary: k)
  case Nil
  then show ?case by simp
next
  case (Cons r A)
  have r: "k < length r" using Cons.prems by simp
  have rest: "\<forall>row \<in> set A. Suc k + length A \<le> length row" using Cons.prems by simp
  have "take 1 (drop k r) = [r ! k]"
    using Cons_nth_drop_Suc[OF r, symmetric] by simp
  then show ?case
    using Cons.IH[OF rest]
    by (simp add: upt_conv_Cons map_Suc_upt[symmetric] comp_def del: upt_Suc)
qed

lemma diagonal_square:
  "\<forall>row \<in> set A. length row = length A \<Longrightarrow> diagonal A = map (\<lambda>i. A ! i ! i) [0..<length A]"
  using diagonal_nth_aux[of A 0] by (simp add: diagonal_def)


section \<open>Lemmas on rounding\<close>

lemma fl_exact: "fl Fin x = x"
  by (cases x) (simp_all add: fl_def)

lemma r_exact:
  "radd Fin x y = x + y" "rsub Fin x y = x - y" "rmul Fin x y = x * y" "rdiv Fin x y = x / y"
  "rsqrt Fin x = fsqrt x" "rlog Fin x = flog x"
  by (simp_all add: radd_def rsub_def rmul_def rdiv_def rsqrt_def rlog_def fl_exact)

lemma fl_simps:
  "fl rnd (Fin a) = rnd a" "fl rnd PInf = PInf" "fl rnd NInf = NInf" "fl rnd NaN = NaN"
  by (simp_all add: fl_def)

lemmas r_defs = radd_def rsub_def rmul_def rdiv_def rsqrt_def rlog_def fl_simps

lemma nan_ops:
  "x + NaN = NaN" "NaN + x = NaN" "x - NaN = NaN" "NaN - x = NaN"
  "x * NaN = NaN" "NaN * x = NaN" "x / NaN = NaN" "NaN / x = NaN"
  by (cases x; simp add: minus_fval_def)+

lemma r_nan:
  "radd rnd x NaN = NaN" "radd rnd NaN x = NaN" "rsub rnd x NaN = NaN" "rsub rnd NaN x = NaN"
  "rmul rnd x NaN = NaN" "rmul rnd NaN x = NaN" "rdiv rnd x NaN = NaN" "rdiv rnd NaN x = NaN"
  by (simp_all add: radd_def rsub_def rmul_def rdiv_def nan_ops fl_simps)

text \<open>Values of \<open>round_binary 24\<close>, each from the binade of its argument.\<close>

lemma round_half_even_of_int: "round_half_even (of_int k) = k"
  by (simp add: round_half_even_def)

lemma round_half_even_numeral: "round_half_even (numeral k) = numeral k"
  using round_half_even_of_int[of "numeral k"] by simp

lemma floor_log2:
  assumes "2 powr of_int e \<le> x" "x < 2 powr (of_int e + 1)"
  shows "\<lfloor>log 2 x\<rfloor> = e"
proof -
  have pos: "0 < x" using assms(1) powr_gt_zero[of 2 "of_int e"] by linarith
  have "of_int e \<le> log 2 x" using assms(1) pos by (simp add: le_log_iff)
  moreover have "log 2 x < of_int e + 1" using assms(2) pos by (simp add: log_less_iff)
  ultimately show ?thesis by linarith
qed

lemma round_binary_binade:
  assumes "2 powr of_int e \<le> \<bar>x\<bar>" "\<bar>x\<bar> < 2 powr (of_int e + 1)"
  shows "round_binary prec x
     = Fin (2 powr (of_int e - (of_nat prec - 1))
             * of_int (round_half_even (x / 2 powr (of_int e - (of_nat prec - 1)))))"
proof -
  have "0 < \<bar>x\<bar>" using assms(1) powr_gt_zero[of 2 "of_int e"] by linarith
  then have nz: "x \<noteq> 0" by simp
  have "\<lfloor>log 2 \<bar>x\<bar>\<rfloor> = e" using assms by (rule floor_log2)
  then show ?thesis using nz by (simp add: round_binary_def)
qed

lemma rb_zero: "round_binary prec 0 = Fin 0"
  by (simp add: round_binary_def)

lemma rb_one: "round_binary 24 1 = Fin 1"
  using round_binary_binade[of 0 1 24] by (simp add: round_half_even_numeral powr_minus)

lemma rb_fifth: "round_binary 24 0.2 = Fin (13421773 / 2 ^ 26)"
  using round_binary_binade[of "-3" "0.2" 24]
  by (simp add: round_half_even_def powr_minus powr_numeral)

lemma rb_tenth: "round_binary 24 0.1 = Fin (13421773 / 2 ^ 27)"
  using round_binary_binade[of "-4" "0.1" 24]
  by (simp add: round_half_even_def powr_minus powr_numeral)

lemma rb_fifth_repr: "round_binary 24 (13421773 / 2 ^ 26) = Fin (13421773 / 2 ^ 26)"
  using round_binary_binade[of "-3" "13421773 / 2 ^ 26" 24]
  by (simp add: round_half_even_numeral powr_minus powr_numeral)

lemma rb_small: "round_binary 24 (13421773 / 2 ^ 56) = Fin (13421773 / 2 ^ 56)"
  using round_binary_binade[of "-33" "13421773 / 2 ^ 56" 24]
  by (simp add: round_half_even_numeral powr_minus powr_numeral)

lemma rb_absorb: "round_binary 24 (1 + 13421773 / 2 ^ 56) = Fin 1"
  using round_binary_binade[of 0 "1 + 13421773 / 2 ^ 56" 24]
  by (simp add: round_half_even_def powr_minus powr_numeral)

lemma rb_tenth_repr: "round_binary 24 (13421773 / 2 ^ 27) = Fin (13421773 / 2 ^ 27)"
  using round_binary_binade[of "-4" "13421773 / 2 ^ 27" 24]
  by (simp add: round_half_even_numeral powr_minus powr_numeral)

lemma rb_guard: "round_binary 24 (1 / 10 ^ 8) = Fin (11258999 / 2 ^ 50)"
  using round_binary_binade[of "-27" "1 / 10 ^ 8" 24]
  by (simp add: round_half_even_def powr_minus powr_numeral)

lemma rb_cap: "round_binary 24 (1 - 13421773 / 2 ^ 26) = Fin (13421773 / 2 ^ 24)"
  using round_binary_binade[of "-1" "1 - 13421773 / 2 ^ 26" 24]
  by (simp add: round_half_even_def powr_minus powr_numeral)

lemma rb_cap_guard:
  "round_binary 24 (13421773 / 2 ^ 24 - 11258999 / 2 ^ 50) = Fin (13421773 / 2 ^ 24)"
  using round_binary_binade[of "-1" "13421773 / 2 ^ 24 - 11258999 / 2 ^ 50" 24]
  by (simp add: round_half_even_def powr_minus powr_numeral)

lemmas rb_values =
  rb_zero rb_one rb_fifth[simplified] rb_tenth[simplified] rb_fifth_repr[simplified]
  rb_tenth_repr[simplified] rb_small[simplified] rb_absorb[simplified]

text \<open>
  In binary32 the guard \<open>1e-8\<close> of \<^verbatim>\<open>1 - c_1 - 1e-8\<close> is below half the spacing of the
  numbers between \<open>1/2\<close> and 1 and is absorbed. At \<open>c_1 = 13421773 / 2^26\<close>, the binary32
  value of 0.2, the cap is \<open>13421773 / 2^24\<close>, and \<open>c_1\<close> plus the cap exceeds 1.
\<close>

lemma cap_absorbs_guard:
  "rsub (round_binary 24) (rsub (round_binary 24) (Fin 1) (Fin (13421773 / 2 ^ 26)))
        (round_binary 24 (1 / 10 ^ 8))
     = rsub (round_binary 24) (Fin 1) (Fin (13421773 / 2 ^ 26))
   \<and> rsub (round_binary 24) (Fin 1) (Fin (13421773 / 2 ^ 26)) = Fin (13421773 / 2 ^ 24)
   \<and> \<not> (Fin (13421773 / 2 ^ 26) + Fin (13421773 / 2 ^ 24) \<le> Fin 1)"
proof -
  have a: "rsub (round_binary 24) (Fin 1) (Fin (13421773 / 2 ^ 26)) = Fin (13421773 / 2 ^ 24)"
    by (simp add: rsub_def minus_fval_def fl_simps rb_cap[simplified])
  have b: "rsub (round_binary 24) (Fin (13421773 / 2 ^ 24)) (round_binary 24 (1 / 10 ^ 8))
      = Fin (13421773 / 2 ^ 24)"
    by (simp add: rsub_def minus_fval_def fl_simps rb_guard[simplified] rb_cap_guard[simplified])
  show ?thesis unfolding a b by simp
qed

section \<open>Lemmas on initialisation with a population of one\<close>

lemma weights_prime_one:
  assumes "rnd 0 = Fin 0" "rnd 1 = Fin 1"
  shows "weights_prime rnd 1 = [Fin 0]"
  using assms by (simp add: weights_prime_def rsub_def rlog_def fl_simps minus_fval_def)

lemma init_mu_eff_one:
  assumes "rnd 0 = Fin 0" "rnd 1 = Fin 1"
  shows "init_mu_eff rnd 1 1 = NaN"
  using assms
  by (simp add: init_mu_eff_def weights_prime_one py_take_def rsum_def radd_def rmul_def
      rdiv_def fl_simps)

lemma init_strategy_Inr:
  assumes "mean_init \<noteq> []"
  shows "\<not> isl (init_strategy rnd mean_init sig lam k)"
    and "c_1 (fst (projr (init_strategy rnd mean_init sig lam k)))
           = init_c_1 rnd (length mean_init) lam k"
    and "c_mu (fst (projr (init_strategy rnd mean_init sig lam k)))
           = init_c_mu rnd (length mean_init) lam k"
    and "weights (fst (projr (init_strategy rnd mean_init sig lam k)))
           = init_weights rnd (length mean_init) lam k"
  using assms by (simp_all add: init_strategy_def init_chi_n_def Let_def)

section \<open>Sampling leaves the search distribution alone\<close>

text \<open>
  Claim C9. For every state and parameters, the state returned by \<^verbatim>\<open>ask_cma_strategy\<close>
  differs from the input state at most in the fields \<open>C\<close>, \<open>B\<close> and \<open>D\<close>: the mean, the
  step size, both evolution paths and the generation counter are unchanged.
\<close>

theorem ask_frame:
  "mean (snd (ask_cma_strategy eigh normal rng m p)) = mean m
   \<and> sigma (snd (ask_cma_strategy eigh normal rng m p)) = sigma m
   \<and> p_sigma (snd (ask_cma_strategy eigh normal rng m p)) = p_sigma m
   \<and> p_c (snd (ask_cma_strategy eigh normal rng m p)) = p_c m
   \<and> generation (snd (ask_cma_strategy eigh normal rng m p)) = generation m
   \<and> (\<exists>c b d. snd (ask_cma_strategy eigh normal rng m p) = m\<lparr>C := c, B := b, D := d\<rparr>)"
  by (auto simp add: ask_cma_strategy_def Let_def split: prod.splits)

section \<open>The cache of the decomposition\<close>

text \<open>
  Claim C5. Whenever an operation assigns a new covariance matrix to a state, the
  cached \<open>B\<close> and \<open>D\<close> of that state are absent when the operation returns, until the
  next eigendecomposition: the state returned by \<^verbatim>\<open>tell_cma_strategy\<close> has \<open>B\<close> and \<open>D\<close>
  absent (\<^verbatim>\<open>update_p_sigma\<close> hands back \<open>None, None\<close> for them before the covariance
  update), and so has the state returned by \<^verbatim>\<open>init_strategy\<close>. The only place that
  stores a present \<open>B\<close> and \<open>D\<close> is the write-back of the eigendecomposition in
  \<^verbatim>\<open>ask_cma_strategy\<close>: the three fields are then the decomposition's own result, and
  \<open>C\<close> is left as it was when the cache was valid.
\<close>

theorem tell_leaves_cache_absent:
  "B (tell_cma_strategy eigh x fitness k p m) = None
   \<and> D (tell_cma_strategy eigh x fitness k p m) = None
   \<and> snd (snd (snd (update_p_sigma eigh y_w p m))) = (None, None)
   \<and> (case init_strategy rnd mean_init sig lam k of
         Inl e \<Rightarrow> True
       | Inr (p0, m0) \<Rightarrow> B m0 = None \<and> D m0 = None)
   \<and> (C (snd (ask_cma_strategy eigh normal rng m p)),
       B (snd (ask_cma_strategy eigh normal rng m p)),
       D (snd (ask_cma_strategy eigh normal rng m p)))
      = (case eigen_decomposition eigh (C m) (B m) (D m) of (c, b, d) \<Rightarrow> (c, Some b, Some d))
   \<and> C (snd (ask_cma_strategy eigh normal rng (m\<lparr>B := Some b, D := Some d\<rparr>) p)) = C m"
proof -
  have tellB: "B (tell_cma_strategy eigh x fitness k p m) = None"
    by (simp add: tell_cma_strategy_def update_p_sigma_def Let_def split: prod.splits)
  have tellD: "D (tell_cma_strategy eigh x fitness k p m) = None"
    by (simp add: tell_cma_strategy_def update_p_sigma_def Let_def split: prod.splits)
  have ups: "snd (snd (snd (update_p_sigma eigh y_w p m))) = (None, None)"
    by (simp add: update_p_sigma_def Let_def split: prod.splits)
  have init: "case init_strategy rnd mean_init sig lam k of
         Inl e \<Rightarrow> True
       | Inr (p0, m0) \<Rightarrow> B m0 = None \<and> D m0 = None"
    by (simp add: init_strategy_def Let_def split: sum.splits)
  have ask1: "(C (snd (ask_cma_strategy eigh normal rng m p)),
       B (snd (ask_cma_strategy eigh normal rng m p)),
       D (snd (ask_cma_strategy eigh normal rng m p)))
      = (case eigen_decomposition eigh (C m) (B m) (D m) of (c, b, d) \<Rightarrow> (c, Some b, Some d))"
    by (simp add: ask_cma_strategy_def Let_def split: prod.splits)
  have ask2: "C (snd (ask_cma_strategy eigh normal rng (m\<lparr>B := Some b, D := Some d\<rparr>) p)) = C m"
    by (simp add: ask_cma_strategy_def eigen_decomposition_def Let_def split: prod.splits)
  from tellB tellD ups init ask1 ask2 show ?thesis by blast
qed

section \<open>The decomposition's square roots\<close>




section \<open>The termination check\<close>



text \<open>
  Claim C1: the second test fires exactly when \<^verbatim>\<open>sigma * sqrt(C[i][i]) < tol_x\<close> and
  \<^verbatim>\<open>sigma * p_c[i] < tol_x\<close> hold at every coordinate, and the check then reports
  convergence. The code does not do that. In the state with \<^verbatim>\<open>sigma = 1e-13\<close>, the
  identity as covariance and zero paths both conditions hold at every coordinate,
  and the call raises NameError, whatever the rounding. In the state with
  \<^verbatim>\<open>sigma = 3e-13\<close> and covariance \<open>diag(4, 4)\<close> both conditions hold as well, the code
  compares \<^verbatim>\<open>sigma * C[i][i]\<close> (no square root) with \<^verbatim>\<open>tol_x\<close>, skips the test and
  returns \<open>False\<close> (the mean is zero there and the sums of the fourth and fifth test
  are the addends themselves; they are evaluated with \<open>rnd = Fin\<close>).
\<close>

theorem variance_test_never_reports:
  "list_all (\<lambda>dc. Fin (1 / 10 ^ 13) * fsqrt dc < tol_x example_params) (diagonal (eye 2))
   \<and> list_all (\<lambda>v. Fin (1 / 10 ^ 13) * v < tol_x example_params)
        (p_c (example_memory (Fin (1 / 10 ^ 13)) (eye 2)))
   \<and> check_termination rnd (eigh_const [Fin 1, Fin 1] (eye 2)) [Fin 1, Fin 2] example_params
        (example_memory (Fin (1 / 10 ^ 13)) (eye 2)) = Inl NameError
   \<and> list_all (\<lambda>dc. Fin (3 / 10 ^ 13) * fsqrt dc < tol_x example_params)
        (diagonal [[Fin 4, Fin 0], [Fin 0, Fin 4]])
   \<and> list_all (\<lambda>v. Fin (3 / 10 ^ 13) * v < tol_x example_params)
        (p_c (example_memory (Fin (3 / 10 ^ 13)) [[Fin 4, Fin 0], [Fin 0, Fin 4]]))
   \<and> check_termination Fin (eigh_const [Fin 4, Fin 4] (eye 2)) [Fin 1, Fin 2] example_params
        (example_memory (Fin (3 / 10 ^ 13)) [[Fin 4, Fin 0], [Fin 0, Fin 4]]) = Inr (False, [])"
  by (simp add: check_termination_def eigen_decomposition_def eigh_const_def example_memory_def
      example_params_def clamp_sqrt_def cond_no_progress_def cond_variance_small_def
      cond_sigma_exploded_def cond_no_effect_coord_def cond_no_effect_axis_def
      cond_condition_C_def stop_if_simps eye2 diagonal2 fmax2 fmin2 fmaximum_def fminimum_def
      r_defs)

text \<open>
  Claim C8, as stated: the fourth test fires exactly when every coordinate of the mean
  is unchanged by adding \<^verbatim>\<open>0.2 * sigma * sqrt(C[i][i])\<close>. It fails in the state with
  mean zero, \<^verbatim>\<open>sigma = 1\<close> and covariance \<open>diag(0, 1)\<close>, in binary32 arithmetic: the
  first coordinate is unchanged, the second is not, and the test fires (the source
  tests \<^verbatim>\<open>jnp.any\<close>).
\<close>

theorem no_effect_coord_one_coordinate:
  "check_termination (round_binary 24) (eigh_const [Fin 0, Fin 1] (eye 2)) [Fin 1, Fin 2]
      example_params (example_memory (Fin 1) [[Fin 0, Fin 0], [Fin 0, Fin 1]])
     = Inr (True, [msg_no_effect_coord])
   \<and> cond_no_effect_coord (round_binary 24)
        (example_memory (Fin 1) [[Fin 0, Fin 0], [Fin 0, Fin 1]]) = Inr True
   \<and> \<not> list_all (\<lambda>(a, b). feq a b)
        (zip [Fin 0, Fin 0]
           (map2 (radd (round_binary 24)) [Fin 0, Fin 0]
              (map (\<lambda>dc. rmul (round_binary 24)
                            (rmul (round_binary 24) (round_binary 24 0.2) (Fin 1))
                            (rsqrt (round_binary 24) dc))
                 (diagonal [[Fin 0, Fin 0], [Fin 0, Fin 1]]))))"
  by (simp add: check_termination_def eigen_decomposition_def eigh_const_def example_memory_def
      example_params_def clamp_sqrt_def cond_no_progress_def cond_variance_small_def
      cond_sigma_exploded_def cond_no_effect_coord_def stop_if_simps diagonal2 fmax2 fmaximum_def
      r_defs rb_values)

text \<open>
  Claim C8, amended. For every rounding of the floating-point operations, the fourth
  test fires exactly when at least one coordinate \<open>i\<close> of the mean is equal to the
  rounded sum of \<^verbatim>\<open>mean[i]\<close> and \<^verbatim>\<open>0.2 * sigma * sqrt(C[i][i])\<close>; when the first three
  tests are false, that is exactly when the check returns \<open>True\<close> on the fourth test,
  printing its line. The witness is the state with mean \<open>(1, 1)\<close>, \<^verbatim>\<open>sigma = 2^-30\<close> and
  the identity as covariance, in binary32 arithmetic: the addend \<open>13421773 / 2^56\<close>
  (about \<open>1.9e-10\<close>) is not zero and the sum rounds back to 1.
\<close>

theorem no_effect_coord_iff_some_coordinate:
  assumes "cond_no_progress values p m = Inr False"
    and "cond_variance_small p m = Inr False"
    and "cond_sigma_exploded (snd (snd (eigen_decomposition eigh (C m) (B m) (D m)))) p m
           = Inr False"
  shows "cond_no_effect_coord rnd m
           = Inr (\<exists>i. i < length (mean m) \<and> i < length (diagonal (C m))
                  \<and> feq (mean m ! i)
                        (radd rnd (mean m ! i)
                           (rmul rnd (rmul rnd (rnd 0.2) (sigma m))
                                     (rsqrt rnd (diagonal (C m) ! i)))))
         \<and> ((\<exists>i. i < length (mean m) \<and> i < length (diagonal (C m))
                  \<and> feq (mean m ! i)
                        (radd rnd (mean m ! i)
                           (rmul rnd (rmul rnd (rnd 0.2) (sigma m))
                                     (rsqrt rnd (diagonal (C m) ! i)))))
              \<longleftrightarrow> check_termination rnd eigh values p m = Inr (True, [msg_no_effect_coord])
                   \<and> cond_no_effect_coord rnd m = Inr True)"
proof -
  have eq: "cond_no_effect_coord rnd m
           = Inr (\<exists>i. i < length (mean m) \<and> i < length (diagonal (C m))
                  \<and> feq (mean m ! i)
                        (radd rnd (mean m ! i)
                           (rmul rnd (rmul rnd (rnd 0.2) (sigma m))
                                     (rsqrt rnd (diagonal (C m) ! i)))))"
    by (auto simp add: cond_no_effect_coord_def list_ex_zip_nth)
  have "cond_no_effect_coord rnd m = Inr True \<Longrightarrow>
      check_termination rnd eigh values p m = Inr (True, [msg_no_effect_coord])"
    using assms
    by (simp add: check_termination_def stop_if_simps case_prod_beta)
  with eq show ?thesis by auto
qed

theorem no_effect_coord_iff_some_coordinate_witness:
  "cond_no_effect_coord (round_binary 24) small_step_state = Inr True
   \<and> check_termination (round_binary 24) (eigh_const [Fin 1, Fin 1] (eye 2)) [Fin 1, Fin 2]
        example_params small_step_state = Inr (True, [msg_no_effect_coord])
   \<and> radd (round_binary 24) (Fin 1)
        (rmul (round_binary 24) (rmul (round_binary 24) (round_binary 24 0.2) (Fin (1 / 2 ^ 30)))
           (rsqrt (round_binary 24) (Fin 1))) = Fin 1
   \<and> rmul (round_binary 24) (rmul (round_binary 24) (round_binary 24 0.2) (Fin (1 / 2 ^ 30)))
           (rsqrt (round_binary 24) (Fin 1)) = Fin (13421773 / 2 ^ 56)"
proof -
  let ?m = "small_step_state"
  let ?eigh = "eigh_const [Fin 1, Fin 1] (eye 2)"
  let ?r = "round_binary 24"
  have h1: "cond_no_progress [Fin 1, Fin 2] example_params ?m = Inr False"
    by (simp add: cond_no_progress_def example_params_def small_step_state_def)
  have h2: "cond_variance_small example_params ?m = Inr False"
    by (simp add: cond_variance_small_def example_params_def small_step_state_def diagonal2)
  have h3: "cond_sigma_exploded (snd (snd (eigen_decomposition ?eigh (C ?m) (B ?m) (D ?m))))
              example_params ?m = Inr False"
    by (simp add: cond_sigma_exploded_def eigen_decomposition_def eigh_const_def
        example_params_def small_step_state_def clamp_sqrt_def fmax2 fmaximum_def)
  have addend: "rmul ?r (rmul ?r (?r 0.2) (Fin (1 / 2 ^ 30))) (rsqrt ?r (Fin 1))
      = Fin (13421773 / 2 ^ 56)"
    by (simp add: r_defs rb_values)
  have absorbed: "radd ?r (Fin 1) (Fin (13421773 / 2 ^ 56)) = Fin 1"
    by (simp add: r_defs rb_values)
  have third: "radd ?r (Fin 1)
        (rmul ?r (rmul ?r (?r 0.2) (Fin (1 / 2 ^ 30))) (rsqrt ?r (Fin 1))) = Fin 1"
    unfolding addend by (rule absorbed)
  have fields: "mean ?m ! 0 = Fin 1" "sigma ?m = Fin (1 / 2 ^ 30)"
    "diagonal (C ?m) ! 0 = Fin 1" "0 < length (mean ?m)" "0 < length (diagonal (C ?m))"
    by (simp_all add: small_step_state_def diagonal2)
  have "feq (mean ?m ! 0)
            (radd ?r (mean ?m ! 0)
               (rmul ?r (rmul ?r (?r 0.2) (sigma ?m)) (rsqrt ?r (diagonal (C ?m) ! 0))))"
    unfolding fields third by simp
  with fields(4,5) have ex: "\<exists>i. i < length (mean ?m) \<and> i < length (diagonal (C ?m))
      \<and> feq (mean ?m ! i)
            (radd ?r (mean ?m ! i)
               (rmul ?r (rmul ?r (?r 0.2) (sigma ?m)) (rsqrt ?r (diagonal (C ?m) ! i))))"
    by blast
  from no_effect_coord_iff_some_coordinate[OF h1 h2 h3, of ?r] ex
  have fires: "check_termination ?r ?eigh [Fin 1, Fin 2] example_params ?m
        = Inr (True, [msg_no_effect_coord])
      \<and> cond_no_effect_coord ?r ?m = Inr True"
    by blast
  from fires third addend show ?thesis by blast
qed

text \<open>
  Claim C2, as stated: the check returns, with the boolean, which of the six tests
  fired, and the six reasons are pairwise distinguishable. It fails for the fourth
  and the fifth test, in binary32 arithmetic: the state with covariance \<open>diag(0, 1)\<close>,
  in which the fourth test fires, and \<open>cached_state\<close>, in which the fourth test does
  not fire and the fifth does (the cached \<open>D[0]\<close> is 0, every diagonal entry of \<open>C\<close>
  is 1), give the same result, \<open>True\<close> and the same printed line. (The returned value
  itself is the boolean alone; the line is printed.)
\<close>

theorem coord_and_axis_same_result:
  "check_termination (round_binary 24) (eigh_const [Fin 0, Fin 1] (eye 2)) [Fin 1, Fin 2]
      example_params (example_memory (Fin 1) [[Fin 0, Fin 0], [Fin 0, Fin 1]])
   = check_termination (round_binary 24) (eigh_const [Fin 0, Fin 1] (eye 2)) [Fin 1, Fin 2]
      example_params cached_state
   \<and> cond_no_effect_coord (round_binary 24)
        (example_memory (Fin 1) [[Fin 0, Fin 0], [Fin 0, Fin 1]]) = Inr True
   \<and> cond_no_effect_coord (round_binary 24) cached_state = Inr False
   \<and> cond_no_effect_axis (round_binary 24)
        [[Fin (11863283 / 2 ^ 24), Fin (11863283 / 2 ^ 24)],
         [Fin (- (11863283 / 2 ^ 24)), Fin (11863283 / 2 ^ 24)]]
        [Fin 0, Fin (11863283 / 2 ^ 23)] cached_state = Inr True
   \<and> check_termination (round_binary 24) (eigh_const [Fin 0, Fin 1] (eye 2)) [Fin 1, Fin 2]
        example_params cached_state = Inr (True, [msg_no_effect_axis])"
  by (simp add: check_termination_def eigen_decomposition_def eigh_const_def example_memory_def
      cached_state_def
      example_params_def clamp_sqrt_def cond_no_progress_def cond_variance_small_def
      cond_sigma_exploded_def cond_no_effect_coord_def cond_no_effect_axis_def
      stop_if_simps diagonal2 fmax2 fmaximum_def msgs_distinct r_defs rb_values)

text \<open>
  Claim C2, amended. \<^verbatim>\<open>check_termination\<close> returns a boolean and prints at most one
  line: none when it returns \<open>False\<close>, one when it returns \<open>True\<close>. The lines of the
  first, second, third and sixth test differ from each other and from the one line
  that the fourth and the fifth test share. So the line of the first, the third or the
  sixth test tells that this test fired, and the shared line tells that the fourth or
  the fifth did.
\<close>

theorem termination_output_reasons:
  assumes "check_termination rnd eigh values p m = Inr (b, out)"
    and "eigen_decomposition eigh (C m) (B m) (D m) = (C1, evecs, d)"
  shows "(b \<longleftrightarrow> out \<noteq> [])
    \<and> (out = [] \<or> out = [msg_no_progress] \<or> out = [msg_variance_small]
          \<or> out = [msg_sigma_exploded] \<or> out = [msg_no_effect_coord]
          \<or> out = [msg_condition_C])
    \<and> (out = [msg_no_progress] \<longleftrightarrow> cond_no_progress values p m = Inr True)
    \<and> (out = [msg_sigma_exploded] \<longleftrightarrow>
          cond_no_progress values p m = Inr False \<and> cond_variance_small p m = Inr False
          \<and> cond_sigma_exploded d p m = Inr True)
    \<and> (out = [msg_no_effect_coord] \<longleftrightarrow>
          cond_no_progress values p m = Inr False \<and> cond_variance_small p m = Inr False
          \<and> cond_sigma_exploded d p m = Inr False
          \<and> (cond_no_effect_coord rnd m = Inr True
               \<or> cond_no_effect_coord rnd m = Inr False
                  \<and> cond_no_effect_axis rnd evecs d m = Inr True))
    \<and> (out = [msg_condition_C] \<longleftrightarrow>
          cond_no_progress values p m = Inr False \<and> cond_variance_small p m = Inr False
          \<and> cond_sigma_exploded d p m = Inr False \<and> cond_no_effect_coord rnd m = Inr False
          \<and> cond_no_effect_axis rnd evecs d m = Inr False \<and> cond_condition_C d p = Inr True)
    \<and> distinct [msg_no_progress, msg_variance_small, msg_sigma_exploded, msg_no_effect_coord,
                 msg_condition_C]
    \<and> msg_no_effect_axis = msg_no_effect_coord"
  using assms
  unfolding check_termination_def
  by (auto simp add: stop_if_cases msgs_distinct msgs_distinct(1-10)[symmetric])

theorem termination_output_reasons_witness:
  "check_termination (round_binary 24) (eigh_const [Fin 0, Fin 1] (eye 2)) [Fin 1, Fin 2]
      example_params cached_state = Inr (True, [msg_no_effect_coord])
   \<and> cond_no_effect_coord (round_binary 24) cached_state = Inr False
   \<and> cond_no_effect_axis (round_binary 24)
        [[Fin (11863283 / 2 ^ 24), Fin (11863283 / 2 ^ 24)],
         [Fin (- (11863283 / 2 ^ 24)), Fin (11863283 / 2 ^ 24)]]
        [Fin 0, Fin (11863283 / 2 ^ 23)] cached_state = Inr True"
proof -
  let ?m = "cached_state"
  let ?eigh = "eigh_const [Fin 0, Fin 1] (eye 2)"
  let ?r = "round_binary 24"
  have h1: "check_termination ?r ?eigh [Fin 1, Fin 2] example_params ?m
      = Inr (True, [msg_no_effect_coord])"
    by (simp add: check_termination_def eigen_decomposition_def eigh_const_def
      cached_state_def
      example_params_def clamp_sqrt_def cond_no_progress_def cond_variance_small_def
      cond_sigma_exploded_def cond_no_effect_coord_def cond_no_effect_axis_def
      stop_if_simps diagonal2 fmax2 fmaximum_def msgs_distinct r_defs rb_values)
  have h2: "eigen_decomposition ?eigh (C ?m) (B ?m) (D ?m)
      = (C ?m,
         [[Fin (11863283 / 2 ^ 24), Fin (11863283 / 2 ^ 24)],
          [Fin (- (11863283 / 2 ^ 24)), Fin (11863283 / 2 ^ 24)]],
         [Fin 0, Fin (11863283 / 2 ^ 23)])"
    by (simp add: eigen_decomposition_def cached_state_def)
  have h3: "cond_no_effect_coord ?r ?m = Inr False"
    by (simp add: cond_no_effect_coord_def cached_state_def diagonal2 r_defs rb_values)
  from termination_output_reasons[OF h1 h2] have
    "cond_no_effect_coord ?r ?m = Inr True
       \<or> cond_no_effect_coord ?r ?m = Inr False
          \<and> cond_no_effect_axis ?r
               [[Fin (11863283 / 2 ^ 24), Fin (11863283 / 2 ^ 24)],
                [Fin (- (11863283 / 2 ^ 24)), Fin (11863283 / 2 ^ 24)]]
               [Fin 0, Fin (11863283 / 2 ^ 23)] ?m = Inr True"
    by blast
  with h1 h3 show ?thesis by auto
qed

section \<open>Initialisation performs no validation\<close>

text \<open>
  Claim C3: initialisation fails with an InvalidParameters error when
  \<^verbatim>\<open>population_size <= 0\<close>, \<^verbatim>\<open>n_dim <= 1\<close>, \<^verbatim>\<open>sigma <= 0\<close> or a learning-rate invariant is
  violated. The code does not do that: \<^verbatim>\<open>init_strategy\<close> with \<^verbatim>\<open>sigma = -1.0\<close> returns
  parameters and a state, and so it does with a one-dimensional mean and with
  \<^verbatim>\<open>population_size = 0\<close>; the validation routine \<^verbatim>\<open>check_initialization\<close> is never called
  and raises NameError when it is.
\<close>

theorem init_strategy_returns_on_invalid_input:
  "(\<exists>p m. init_strategy rnd [Fin 0, Fin 0] (Fin (- 1)) 4 2 = Inr (p, m)
          \<and> sigma m = Fin (- 1) \<and> tol_x p = Fin (- (1 / 10 ^ 12)))
   \<and> (\<exists>p m. init_strategy rnd [Fin 0] (Fin 1) 4 2 = Inr (p, m) \<and> C m = [[Fin 1]])
   \<and> (\<exists>p m. init_strategy rnd [Fin 0, Fin 0] (Fin 1) 0 0 = Inr (p, m) \<and> weights p = [])
   \<and> check_initialization = Inl NameError"
  by (simp add: init_strategy_def init_chi_n_def check_initialization_def eye_def
      init_weights_def weights_prime_def)

section \<open>Initialisation with a population of one\<close>

text \<open>
  Claim C7: for every valid input (\<^verbatim>\<open>population_size >= 1\<close>,
  \<^verbatim>\<open>1 <= mu <= population_size\<close>, \<^verbatim>\<open>n_dim >= 2\<close>) the learning rates satisfy
  \<^verbatim>\<open>c_1 + c_mu <= 1\<close>. The code does not do that for \<^verbatim>\<open>population_size = 1\<close>: the
  only entry of \<^verbatim>\<open>weights_prime\<close> is \<^verbatim>\<open>log(1.0) - log(1) = 0\<close>, \<^verbatim>\<open>mu_eff\<close> is \<open>0 / 0\<close>,
  and both learning rates are NaN, which compares false with everything. This holds
  for every rounding that leaves 0 and 1 as they are.
\<close>

theorem learning_rates_population_one:
  assumes "rnd 0 = Fin 0" "rnd 1 = Fin 1"
  shows "\<not> isl (init_strategy rnd [Fin 0, Fin 0] (Fin 1) 1 1)
   \<and> c_1 (fst (projr (init_strategy rnd [Fin 0, Fin 0] (Fin 1) 1 1))) = NaN
   \<and> c_mu (fst (projr (init_strategy rnd [Fin 0, Fin 0] (Fin 1) 1 1))) = NaN
   \<and> \<not> (c_1 (fst (projr (init_strategy rnd [Fin 0, Fin 0] (Fin 1) 1 1)))
          + c_mu (fst (projr (init_strategy rnd [Fin 0, Fin 0] (Fin 1) 1 1))) \<le> Fin 1)"
proof -
  have c1: "\<And>n. init_c_1 rnd n 1 1 = NaN"
    by (simp add: init_c_1_def init_mu_eff_one[OF assms] r_nan)
  have cm: "\<And>n. init_c_mu rnd n 1 1 = NaN"
    by (simp add: init_c_mu_def init_mu_eff_one[OF assms] r_nan fminimum_def)
  show ?thesis
    by (simp add: init_strategy_Inr c1 cm)
qed

theorem learning_rates_population_one_witness:
  "round_binary 24 0 = Fin 0 \<and> round_binary 24 1 = Fin 1
   \<and> c_1 (fst (projr (init_strategy (round_binary 24) [Fin 0, Fin 0] (Fin 1) 1 1))) = NaN
   \<and> c_mu (fst (projr (init_strategy (round_binary 24) [Fin 0, Fin 0] (Fin 1) 1 1))) = NaN"
  using learning_rates_population_one[OF rb_zero rb_one] rb_zero rb_one by simp

text \<open>
  Claim C6: for every valid input (\<^verbatim>\<open>population_size >= 1\<close>,
  \<^verbatim>\<open>1 <= mu <= population_size\<close>, \<^verbatim>\<open>n_dim >= 2\<close>) the non-negative entries of
  \<^verbatim>\<open>weights\<close> sum to 1 and the negative entries to \<^verbatim>\<open>-min_alpha\<close>. The code does not do
  that for \<^verbatim>\<open>population_size = 1\<close>: \<^verbatim>\<open>positive_sum\<close> is 0, the only weight is
  \<^verbatim>\<open>(1 / 0) * 0\<close>, that is NaN, no entry is non-negative and their sum is 0. This holds
  for every rounding that leaves 0 and 1 as they are.
\<close>

theorem init_weights_population_one:
  assumes "rnd 0 = Fin 0" "rnd 1 = Fin 1"
  shows "\<not> isl (init_strategy rnd [Fin 0, Fin 0] (Fin 1) 1 1)
   \<and> weights (fst (projr (init_strategy rnd [Fin 0, Fin 0] (Fin 1) 1 1))) = [NaN]
   \<and> fsum (filter (\<lambda>w. Fin 0 \<le> w)
        (weights (fst (projr (init_strategy rnd [Fin 0, Fin 0] (Fin 1) 1 1))))) = Fin 0
   \<and> rsum rnd (filter (\<lambda>w. Fin 0 \<le> w)
        (weights (fst (projr (init_strategy rnd [Fin 0, Fin 0] (Fin 1) 1 1))))) = Fin 0"
proof -
  have w: "\<And>n. init_weights rnd n 1 1 = [NaN]"
    by (simp add: init_weights_def weights_prime_one[OF assms] positive_sum_def rsum_def
        rdiv_def rmul_def fl_simps)
  show ?thesis
    by (simp add: init_strategy_Inr w fsum_def rsum_def)
qed

theorem init_weights_population_one_witness:
  "round_binary 24 0 = Fin 0 \<and> round_binary 24 1 = Fin 1
   \<and> weights (fst (projr (init_strategy (round_binary 24) [Fin 0, Fin 0] (Fin 1) 1 1))) = [NaN]"
  using init_weights_population_one[OF rb_zero rb_one] rb_zero rb_one by simp

end
